theory Spec2Isabelle
  imports Main
begin

section \<open>Keyboard shortcuts (request handler module)\<close>

text \<open>
  The fields of a DOM keyboard event that the request handler reads, and a shortcut
  definition as the settings module stores it
  (\<^verbatim>\<open>{ key, ctrl, shift, alt, description }\<close>).
\<close>

record keyboard_event =
  code :: string
  ctrlKey :: bool
  metaKey :: bool
  shiftKey :: bool
  altKey :: bool

record shortcut =
  key :: string
  ctrl :: bool
  shift :: bool
  alt :: bool
  description :: string

text \<open>
  \<^verbatim>\<open>SHORTCUT_ACTIONS\<close> is an object literal with three function-valued properties. The
  functions are kept as the constructors of a datatype (what a claim needs is which one is
  called).
\<close>

datatype shortcut_action = SendRequestAction | ClearInputAction | ToggleOOSAction

text \<open>
  The listener reads \<^verbatim>\<open>SHORTCUT_ACTIONS[actionId]\<close>. On an object literal that read
  finds the three own properties and, for any other key, what the object inherits from
  \<^verbatim>\<open>Object.prototype\<close>: its eleven methods, and under \<^verbatim>\<open>__proto__\<close> the prototype
  object itself. Every other key reads as \<^verbatim>\<open>undefined\<close>, here \<open>None\<close>.
\<close>

datatype property_value = OwnAction shortcut_action | InheritedMethod string | PrototypeObject

definition Object_prototype_methods :: "string list" where
  "Object_prototype_methods =
     [''constructor'', ''hasOwnProperty'', ''isPrototypeOf'', ''propertyIsEnumerable'',
      ''toLocaleString'', ''toString'', ''valueOf'', ''__defineGetter__'', ''__defineSetter__'',
      ''__lookupGetter__'', ''__lookupSetter__'']"

definition SHORTCUT_ACTIONS :: "string \<Rightarrow> property_value option" where
  "SHORTCUT_ACTIONS actionId =
     (if actionId = ''sendRequest'' then Some (OwnAction SendRequestAction)
      else if actionId = ''clearInput'' then Some (OwnAction ClearInputAction)
      else if actionId = ''toggleOOS'' then Some (OwnAction ToggleOOSAction)
      else if actionId = ''__proto__'' then Some PrototypeObject
      else if actionId \<in> set Object_prototype_methods then Some (InheritedMethod actionId)
      else None)"

text \<open>
  The call \<^verbatim>\<open>action(e)\<close>: what was called, and the error it threw if it threw. The file
  is a module, so the call passes \<^verbatim>\<open>undefined\<close> as \<^verbatim>\<open>this\<close>. One of the three
  actions runs. Of the inherited methods, \<^verbatim>\<open>constructor\<close> (that is \<^verbatim>\<open>Object\<close>) and
  \<^verbatim>\<open>toString\<close> return; each of the others converts \<^verbatim>\<open>this\<close> to an object and throws
  a \<^verbatim>\<open>TypeError\<close>. The prototype object is not a function: calling it throws a
  \<^verbatim>\<open>TypeError\<close> and runs nothing.
\<close>

datatype thrown = TypeError

datatype invocation = Ran shortcut_action | RanInherited string

definition callAction :: "property_value \<Rightarrow> invocation list \<times> thrown option" where
  "callAction action =
     (case action of
        OwnAction a \<Rightarrow> ([Ran a], None)
      | InheritedMethod m \<Rightarrow>
          if m = ''constructor'' \<or> m = ''toString'' then ([RanInherited m], None)
          else ([RanInherited m], Some TypeError)
      | PrototypeObject \<Rightarrow> ([], Some TypeError))"

text \<open>\<^verbatim>\<open>matchesShortcut(event, shortcut)\<close>, the four tests in the order of the source.\<close>

definition matchesShortcut :: "keyboard_event \<Rightarrow> shortcut \<Rightarrow> bool" where
  "matchesShortcut event sc =
     (let ctrlMatch = (if ctrl sc then (ctrlKey event \<or> metaKey event)
                       else \<not> (ctrlKey event \<or> metaKey event));
          shiftMatch = (if shift sc then shiftKey event else \<not> shiftKey event);
          altMatch = (if alt sc then altKey event else \<not> altKey event);
          keyMatch = (code event = key sc)
      in keyMatch \<and> ctrlMatch \<and> shiftMatch \<and> altMatch)"

text \<open>
  The setting \<^verbatim>\<open>settings.keyboardShortcuts\<close>: \<^verbatim>\<open>value\<close> is an object (its entries in
  the order \<^verbatim>\<open>Object.entries\<close> lists them) or \<^verbatim>\<open>null\<close>; \<^verbatim>\<open>default\<close> is the
  built-in table.
\<close>

type_synonym bindings = "(string \<times> shortcut) list"

definition keyboardShortcuts_default :: bindings where
  "keyboardShortcuts_default =
     [(''sendRequest'', \<lparr>key = ''Space'', ctrl = True, shift = False, alt = False,
                          description = ''Send request''\<rparr>),
      (''clearInput'', \<lparr>key = ''KeyL'', ctrl = True, shift = False, alt = False,
                         description = ''Clear request input''\<rparr>),
      (''toggleOOS'', \<lparr>key = ''KeyO'', ctrl = True, shift = True, alt = False,
                        description = ''Toggle OOS visibility''\<rparr>)]"

text \<open>
  The table the listener uses: the stored value when it is there and has at least one
  key, the default table otherwise.
\<close>

definition activeShortcuts :: "bindings option \<Rightarrow> bindings" where
  "activeShortcuts v =
     (case v of
        None \<Rightarrow> keyboardShortcuts_default
      | Some bs \<Rightarrow> if length bs > 0 then bs else keyboardShortcuts_default)"

text \<open>
  What one run of the \<^verbatim>\<open>keydown\<close> listener does: whether it called
  \<^verbatim>\<open>e.preventDefault()\<close>, what it called, in order, and the error it ended with if a
  call threw (the listener has no \<^verbatim>\<open>try\<close>).
\<close>

record dispatch_effects =
  defaultPrevented :: bool
  invoked :: "invocation list"
  raised :: "thrown option"

text \<open>
  The loop \<^verbatim>\<open>for (const [actionId, shortcut] of Object.entries(shortcuts))\<close>: at the
  first entry that matches it prevents the default, calls what the lookup gives if it
  gives something (every property value found is truthy), and returns.
\<close>

fun checkEachShortcut :: "keyboard_event \<Rightarrow> bindings \<Rightarrow> dispatch_effects" where
  "checkEachShortcut e [] = \<lparr>defaultPrevented = False, invoked = [], raised = None\<rparr>"
| "checkEachShortcut e ((actionId, sc) # rest) =
     (if matchesShortcut e sc then
        (case SHORTCUT_ACTIONS actionId of
           Some action \<Rightarrow>
             \<lparr>defaultPrevented = True, invoked = fst (callAction action),
              raised = snd (callAction action)\<rparr>
         | None \<Rightarrow> \<lparr>defaultPrevented = True, invoked = [], raised = None\<rparr>)
      else checkEachShortcut e rest)"

definition keydownListener :: "bindings option \<Rightarrow> keyboard_event \<Rightarrow> dispatch_effects" where
  "keydownListener v e = checkEachShortcut e (activeShortcuts v)"

section \<open>Settings (settings module)\<close>

abbreviation bsl :: string where
  "bsl \<equiv> [CHR 0x5C]"

text \<open>\<^verbatim>\<open>DEFAULT_OOS_PATTERNS\<close>; \<open>bsl\<close> is the backslash of the regular expressions.\<close>

definition DEFAULT_OOS_PATTERNS :: "string list" where
  "DEFAULT_OOS_PATTERNS =
     [''^/_next/'',
      ''^/__nextjs'',
      ''^/next/'',
      ''^/_app/'',
      ''^/@svelte'',
      ''^'' @ bsl @ ''.svelte-kit/'',
      ''^/_nuxt/'',
      ''^/__nuxt'',
      ''^/@vite'',
      ''^/@react-refresh'',
      ''^/@id/'',
      ''^/node_modules/'',
      ''^/__vite_'',
      ''^/webpack'',
      bsl @ ''.hot-update'' @ bsl @ ''.'',
      ''^/sockjs-node'',
      bsl @ ''.map$'',
      ''^/_ws$'',
      ''^/ws$'',
      ''^/socket'' @ bsl @ ''.io'',
      ''^/static/chunks/'',
      ''^/static/development/'',
      ''^/static/webpack/'',
      ''^/_buildManifest'' @ bsl @ ''.js'',
      ''^/_ssgManifest'' @ bsl @ ''.js'',
      ''^/gtm'' @ bsl @ ''.js'',
      ''^/gtag/'',
      ''/analytics'',
      ''/collect'' @ bsl @ ''?'',
      ''^/cdn-cgi/'',
      bsl @ ''?t='' @ bsl @ ''d+$'',
      ''^/hmr$'',
      ''/log'' @ bsl @ ''?'',
      ''/punctual'',
      ''/_/scs/'']"

text \<open>
  The \<^verbatim>\<open>value\<close> of each entry of the \<^verbatim>\<open>settings\<close> object. The two values the code
  tests for being there (\<^verbatim>\<open>!settings.oosPatterns.value\<close>,
  \<^verbatim>\<open>settings.keyboardShortcuts.value && ...\<close>) are options: \<open>None\<close> is \<^verbatim>\<open>null\<close>.
\<close>

record settings_values =
  anthropicApiKey_value :: string
  anthropicModel_value :: string
  enableCorsForAllHosts_value :: bool
  oosPatterns_value :: "string list option"
  inScopePatterns_value :: "string list"
  keyboardShortcuts_value :: "bindings option"

text \<open>The values the module starts with.\<close>

definition initial_settings :: settings_values where
  "initial_settings =
     \<lparr>anthropicApiKey_value = [],
      anthropicModel_value = ''claude-3-5-sonnet-20241022'',
      enableCorsForAllHosts_value = False,
      oosPatterns_value = Some [],
      inScopePatterns_value = [],
      keyboardShortcuts_value = Some []\<rparr>"

text \<open>
  What the reads \<^verbatim>\<open>parsed[key]\<close> give for a value \<^verbatim>\<open>parsed\<close> other than \<^verbatim>\<open>null\<close>:
  every key may be missing (\<open>None\<close>, the \<^verbatim>\<open>undefined\<close> of \<^verbatim>\<open>parsed[key]\<close>); the two
  nullable values may also be stored as \<^verbatim>\<open>null\<close> (\<open>Some None\<close>). A stored number, text,
  boolean or array has none of the keys. The values are of the types that \<^verbatim>\<open>saveSettings\<close>
  writes.
\<close>

record stored_settings =
  stored_anthropicApiKey :: "string option"
  stored_anthropicModel :: "string option"
  stored_enableCorsForAllHosts :: "bool option"
  stored_oosPatterns :: "string list option option"
  stored_inScopePatterns :: "string list option"
  stored_keyboardShortcuts :: "bindings option option"

text \<open>
  \<^verbatim>\<open>Object.keys(settings).forEach(key => { if (parsed[key] !== undefined)
  settings[key].value = parsed[key]; })\<close>
\<close>

definition applyStored :: "stored_settings \<Rightarrow> settings_values \<Rightarrow> settings_values" where
  "applyStored parsed s =
     \<lparr>anthropicApiKey_value =
        (case stored_anthropicApiKey parsed of Some v \<Rightarrow> v | None \<Rightarrow> anthropicApiKey_value s),
      anthropicModel_value =
        (case stored_anthropicModel parsed of Some v \<Rightarrow> v | None \<Rightarrow> anthropicModel_value s),
      enableCorsForAllHosts_value =
        (case stored_enableCorsForAllHosts parsed of
           Some v \<Rightarrow> v | None \<Rightarrow> enableCorsForAllHosts_value s),
      oosPatterns_value =
        (case stored_oosPatterns parsed of Some v \<Rightarrow> v | None \<Rightarrow> oosPatterns_value s),
      inScopePatterns_value =
        (case stored_inScopePatterns parsed of Some v \<Rightarrow> v | None \<Rightarrow> inScopePatterns_value s),
      keyboardShortcuts_value =
        (case stored_keyboardShortcuts parsed of
           Some v \<Rightarrow> v | None \<Rightarrow> keyboardShortcuts_value s)\<rparr>"

text \<open>A thrown value: an \<^verbatim>\<open>Error\<close> with its message and its stack.\<close>

record js_error =
  message :: string
  stack :: string

text \<open>
  What \<^verbatim>\<open>localStorage.getItem('rep_settings')\<close> holds, by what the first statements of
  \<^verbatim>\<open>loadSettings\<close> do with it:
  \<^item> \<open>NoItem\<close>: the item is missing or the empty text, and \<^verbatim>\<open>if (stored)\<close> fails;
  \<^item> \<open>Unparsable e\<close>: \<^verbatim>\<open>JSON.parse(stored)\<close> throws \<open>e\<close>;
  \<^item> \<open>ParsedNull e\<close>: \<^verbatim>\<open>JSON.parse(stored)\<close> gives \<^verbatim>\<open>null\<close> (the item is the text
    \<^verbatim>\<open>null\<close>), and the first read \<^verbatim>\<open>parsed[key]\<close> throws the \<^verbatim>\<open>TypeError\<close> \<open>e\<close>;
  \<^item> \<open>ParsedValue parsed\<close>: \<^verbatim>\<open>JSON.parse(stored)\<close> gives another value, with the reads
    \<open>parsed\<close>.
\<close>

datatype stored_item =
  NoItem | Unparsable js_error | ParsedNull js_error | ParsedValue stored_settings

text \<open>
  The settings after the loop over the keys, when it runs without a throw: the stored
  values are applied when there is a stored value with keys to read.
\<close>

definition mergeStored :: "stored_item \<Rightarrow> settings_values \<Rightarrow> settings_values" where
  "mergeStored stored s =
     (case stored of
        ParsedValue parsed \<Rightarrow> applyStored parsed s
      | _ \<Rightarrow> s)"

section \<open>The shared state\<close>

text \<open>
  A captured request as the list \<^verbatim>\<open>state.requests\<close> holds it: the settings module reads
  \<^verbatim>\<open>request.request.url\<close> and writes \<^verbatim>\<open>request.isOOS\<close>.
\<close>

record har_request =
  url :: string

record request_record =
  request :: har_request
  isOOS :: bool

text \<open>
  The \<^verbatim>\<open>state\<close> object of the state module, with the fields the two modules use.
  \<^verbatim>\<open>null\<close> is \<open>None\<close>.
\<close>

record app_state =
  requests :: "request_record list"
  requestHistory :: "(string \<times> bool) list"
  currentResponse :: "string option"
  regularRequestBaseline :: "string option"

text \<open>
  Modelled from the spec: the two renderers \<^verbatim>\<open>renderDiff(old, new)\<close> and
  \<^verbatim>\<open>highlightHTTP(text)\<close> belong to the utilities module, which is not among the sources,
  and the specification leaves what they render open. A markup value records which of
  them was called, and on what. The response area \<^verbatim>\<open>elements.rawResponseDisplay\<close> shows
  markup (written to \<^verbatim>\<open>innerHTML\<close>) or a plain text (written to \<^verbatim>\<open>textContent\<close>).
\<close>

datatype markup = RenderDiff string string | HighlightHTTP string

datatype display_content = InnerHTML markup | TextContent string

text \<open>
  The DOM elements of \<^verbatim>\<open>elements\<close> that sending a request reads or writes.
  \<^verbatim>\<open>showDiffCheckbox\<close> is the one the code tests for being there: \<open>None\<close> when it is
  missing, \<open>Some c\<close> with \<open>c\<close> its \<^verbatim>\<open>checked\<close> otherwise.
\<close>

record elements =
  rawRequestInput_innerText :: string
  useHttpsCheckbox_checked :: bool
  resStatus_textContent :: string
  resStatus_className :: string
  resTime_textContent :: string
  resSize_textContent :: string
  diffToggle_display :: string
  showDiffCheckbox :: "bool option"
  rawResponseDisplay_content :: display_content
  rawResponseDisplay_display :: string
  rawResponseDisplay_visibility :: string

text \<open>
  Everything the two modules share: the state object, the pattern list \<^verbatim>\<open>oosPatterns\<close>
  that the state module exports, the settings and the elements.
\<close>

record world =
  state :: app_state
  oosPatterns :: "string list"
  settings :: settings_values
  elements :: elements

section \<open>Classification and reclassification\<close>

text \<open>
  Modelled from the spec: the state module, with \<^verbatim>\<open>isOutOfScope\<close>, is not among the
  sources. The pattern matcher of the specification: a regular expression is built from
  each pattern, a pattern that does not compile matches nothing, and the result is true
  when some pattern matches somewhere in the path. The regular expression engine is the
  parameter \<open>regexTest\<close>: \<open>None\<close> when the pattern does not compile.
\<close>

definition matches :: "(string \<Rightarrow> string \<Rightarrow> bool option) \<Rightarrow> string \<Rightarrow> string list \<Rightarrow> bool" where
  "matches regexTest path patterns = list_ex (\<lambda>p. regexTest p path = Some True) patterns"

text \<open>
  Modelled from the spec: the scope classifier \<^verbatim>\<open>classify(url, oosPatterns,
  inScopePatterns)\<close> that the state module is specified to implement. Step 1 takes the path
  and query of the URL (the parameter \<open>pathOf\<close>, \<open>None\<close> for a malformed URL, which
  classifies as not out of scope); step 2 answers false when an in-scope pattern matches;
  step 3 answers whether an out-of-scope pattern matches.
\<close>

definition classify ::
  "(string \<Rightarrow> string \<Rightarrow> bool option) \<Rightarrow> (string \<Rightarrow> string option) \<Rightarrow>
     string \<Rightarrow> string list \<Rightarrow> string list \<Rightarrow> bool" where
  "classify regexTest pathOf u oos inScope =
     (case pathOf u of
        None \<Rightarrow> False
      | Some path \<Rightarrow>
          if matches regexTest path inScope then False else matches regexTest path oos)"

text \<open>
  \<^verbatim>\<open>reclassifyAllRequests()\<close>: \<^verbatim>\<open>state.requests.forEach(request => { request.isOOS =
  isOutOfScope(request.request.url); })\<close>. The classifier \<^verbatim>\<open>isOutOfScope\<close> is imported
  from the state module and is a parameter here.
\<close>

definition reclassifyAllRequests :: "(string \<Rightarrow> bool) \<Rightarrow> app_state \<Rightarrow> app_state" where
  "reclassifyAllRequests isOutOfScope st =
     st\<lparr>requests := map (\<lambda>r. r\<lparr>isOOS := isOutOfScope (url (request r))\<rparr>) (requests st)\<rparr>"

section \<open>Loading the settings\<close>

text \<open>
  Modelled from the spec: \<^verbatim>\<open>updateOOSPatterns\<close> of the state module (not among the
  sources) makes the list it is given the classifier's out-of-scope patterns.
\<close>

definition updateOOSPatterns :: "string list \<Rightarrow> world \<Rightarrow> world" where
  "updateOOSPatterns patterns w = w\<lparr>oosPatterns := patterns\<rparr>"

text \<open>
  How a call of \<^verbatim>\<open>loadSettings\<close> ends: its \<^verbatim>\<open>try\<close> block ran to its end, or a
  statement of it threw and the \<^verbatim>\<open>catch\<close> logged "Failed to load settings".
\<close>

datatype load_outcome = Loaded | LoadFailed js_error

text \<open>
  \<^verbatim>\<open>loadSettings()\<close>. Its inputs from outside the module:
  \<^item> \<open>isOutOfScope\<close>, the classifier of the state module, as a function of the URL, the
    out-of-scope patterns installed by \<^verbatim>\<open>updateOOSPatterns\<close> and the in-scope patterns of
    the settings;
  \<^item> \<open>stored\<close>, the stored item;
  \<^item> \<open>permission\<close>, how \<^verbatim>\<open>await checkCorsPermission()\<close> ends: \<open>Inl e\<close> when it
    throws, \<open>Inr b\<close> when it answers \<open>b\<close>.
  The statements run in the order of the source, so a throw leaves the earlier writes: a
  stored item that does not parse, or that parses to \<^verbatim>\<open>null\<close>, throws before any write;
  the permission check throws after the stored values have been applied. The \<^verbatim>\<open>catch\<close>
  block logs the error and the call returns.
  The test \<^verbatim>\<open>!settings.oosPatterns.value || settings.oosPatterns.value.length === 0\<close>,
  the assignment of the copy of the defaults and the read of the value that follows are the
  one case distinction \<open>patterns\<close>.
\<close>

definition loadSettings ::
  "(string \<Rightarrow> string list \<Rightarrow> string list \<Rightarrow> bool) \<Rightarrow> stored_item \<Rightarrow>
     js_error + bool \<Rightarrow> world \<Rightarrow> load_outcome \<times> world" where
  "loadSettings isOutOfScope stored permission w =
     (case stored of
        Unparsable e \<Rightarrow> (LoadFailed e, w)
      | ParsedNull e \<Rightarrow> (LoadFailed e, w)
      | _ \<Rightarrow>
          (let w1 = w\<lparr>settings := mergeStored stored (settings w)\<rparr>
           in case permission of
                Inl e \<Rightarrow> (LoadFailed e, w1)
              | Inr hasPermission \<Rightarrow>
                  (let s2 = (settings w1)\<lparr>enableCorsForAllHosts_value := hasPermission\<rparr>;
                       patterns = (case oosPatterns_value s2 of
                                     None \<Rightarrow> DEFAULT_OOS_PATTERNS
                                   | Some ps \<Rightarrow>
                                       if length ps = 0 then DEFAULT_OOS_PATTERNS else ps);
                       w3 = w1\<lparr>settings := s2\<lparr>oosPatterns_value := Some patterns\<rparr>\<rparr>;
                       w4 = updateOOSPatterns patterns w3
                   in (Loaded,
                       w4\<lparr>state := reclassifyAllRequests
                          (\<lambda>u. isOutOfScope u (oosPatterns w4) (inScopePatterns_value (settings w4)))
                          (state w4)\<rparr>))))"

section \<open>Sending a request (request handler module)\<close>

text \<open>
  What \<^verbatim>\<open>executeRequest\<close> resolves to. The three numbers are naturals;
  \<open>size_res\<close> is the field \<^verbatim>\<open>size\<close>.
\<close>

record response_result =
  status :: nat
  statusText :: string
  duration :: nat
  size_res :: nat
  headers :: "(string \<times> string) list"
  body :: string

text \<open>The decimal digits of a number, as a template literal prints it.\<close>

fun string_of_nat :: "nat \<Rightarrow> string" where
  "string_of_nat n =
     (if n < 10 then [''0123456789'' ! n]
      else string_of_nat (n div 10) @ [''0123456789'' ! (n mod 10)])"

declare string_of_nat.simps [simp del]

text \<open>
  The functions of other modules (network, utilities, user interface: none of them among
  the sources) and of the language that sending a request calls. They are parameters of
  the model, each with what it can do:
  \<^item> \<^verbatim>\<open>parseRequest(rawContent, useHttps)\<close> gives the URL and the options, or throws;
  \<^item> \<^verbatim>\<open>executeRequest(url, options)\<close> resolves to a result or rejects with an error;
  \<^item> \<^verbatim>\<open>formatBytes(size)\<close> gives a text;
  \<^item> \<open>jsonPretty\<close> is \<^verbatim>\<open>JSON.stringify(JSON.parse(body), null, 2)\<close>: \<open>None\<close> when
    \<^verbatim>\<open>JSON.parse\<close> throws;
  \<^item> \<^verbatim>\<open>updateHistoryButtons()\<close> redraws elements from the state.
\<close>

record 'o collaborators =
  parseRequest :: "string \<Rightarrow> bool \<Rightarrow> js_error + string \<times> 'o"
  executeRequest :: "string \<Rightarrow> 'o \<Rightarrow> js_error + response_result"
  formatBytes :: "nat \<Rightarrow> string"
  jsonPretty :: "string \<Rightarrow> string option"
  updateHistoryButtons :: "app_state \<Rightarrow> elements \<Rightarrow> elements"

text \<open>
  Modelled from the spec: \<^verbatim>\<open>addToHistory(rawRequestText, useHttps)\<close> of the state module
  (not among the sources) appends the pair to the request history.
\<close>

definition addToHistory :: "string \<Rightarrow> bool \<Rightarrow> app_state \<Rightarrow> app_state" where
  "addToHistory rawText useHttps st = st\<lparr>requestHistory := requestHistory st @ [(rawText, useHttps)]\<rparr>"

text \<open>\<^verbatim>\<open>!x\<close> for a value that is \<^verbatim>\<open>null\<close> or a string: \<^verbatim>\<open>null\<close> and the empty string.\<close>

definition falsy :: "string option \<Rightarrow> bool" where
  "falsy x = (case x of None \<Rightarrow> True | Some t \<Rightarrow> t = [])"

text \<open>The raw HTTP response text that the handler builds from a result.\<close>

definition rawResponseOf :: "(string \<Rightarrow> string option) \<Rightarrow> response_result \<Rightarrow> string" where
  "rawResponseOf pretty result =
     ''HTTP/1.1 '' @ string_of_nat (status result) @ '' '' @ statusText result @ ''\<newline>'' @
     concat (map (\<lambda>(k, v). k @ '': '' @ v @ ''\<newline>'') (headers result)) @
     ''\<newline>'' @
     (case pretty (body result) of Some json \<Rightarrow> json | None \<Rightarrow> body result)"

text \<open>The class of the status badge: the three ranges, and no write outside them.\<close>

definition statusClassName :: "nat \<Rightarrow> string \<Rightarrow> string" where
  "statusClassName st old =
     (if st \<ge> 200 \<and> st < 300 then ''status-badge status-2xx''
      else if st \<ge> 400 \<and> st < 500 then ''status-badge status-4xx''
      else if st \<ge> 500 then ''status-badge status-5xx''
      else old)"

text \<open>
  The \<^verbatim>\<open>catch (err)\<close> block of \<^verbatim>\<open>handleSendRequest\<close>: its five writes. It sets
  \<^verbatim>\<open>style.display\<close> of the response area and, unlike the end of the \<^verbatim>\<open>try\<close> block, not
  \<^verbatim>\<open>style.visibility\<close>.
\<close>

definition requestFailed :: "js_error \<Rightarrow> world \<Rightarrow> world" where
  "requestFailed err w =
     w\<lparr>elements := (elements w)
        \<lparr>resStatus_textContent := ''Error'',
         resStatus_className := ''status-badge status-5xx'',
         resTime_textContent := ''0ms'',
         rawResponseDisplay_content :=
           TextContent (''Error: '' @ message err @ ''\<newline>\<newline>Stack: '' @ stack err),
         rawResponseDisplay_display := ''block''\<rparr>\<rparr>"

text \<open>
  The \<^verbatim>\<open>try\<close> block from the statement after \<^verbatim>\<open>await executeRequest(url, options)\<close>
  to its end, for a result: the time, size and status displays, the raw response, the
  current response, the baseline and the display of the response. The test
  \<^verbatim>\<open>!state.regularRequestBaseline\<close> of the baseline block is the case distinction on the
  baseline (\<^verbatim>\<open>null\<close> and the empty string take the first branch, \<open>firstResponse\<close>).
\<close>

definition responseReceived :: "'o collaborators \<Rightarrow> response_result \<Rightarrow> world \<Rightarrow> world" where
  "responseReceived c result w =
     (let el1 = (elements w)
            \<lparr>resTime_textContent := string_of_nat (duration result) @ ''ms'',
             resSize_textContent := formatBytes c (size_res result),
             resStatus_textContent := string_of_nat (status result) @ '' '' @ statusText result,
             resStatus_className :=
               statusClassName (status result) (resStatus_className (elements w))\<rparr>;
          rawResponse = rawResponseOf (jsonPretty c) result;
          st1 = (state w)\<lparr>currentResponse := Some rawResponse\<rparr>;
          firstResponse =
            (st1\<lparr>regularRequestBaseline := Some rawResponse\<rparr>,
             el1\<lparr>diffToggle_display := ''none''\<rparr>);
          (st2, el2) =
            (case regularRequestBaseline st1 of
               None \<Rightarrow> firstResponse
             | Some baseline \<Rightarrow>
                 if baseline = [] then firstResponse
                 else
                   (st1,
                    el1\<lparr>diffToggle_display := ''flex'',
                        rawResponseDisplay_content :=
                          (if showDiffCheckbox el1 = Some True
                           then InnerHTML (RenderDiff baseline rawResponse)
                           else InnerHTML (HighlightHTTP rawResponse))\<rparr>));
          el3 =
            (if showDiffCheckbox el2 = None \<or> showDiffCheckbox el2 = Some False \<or>
                falsy (regularRequestBaseline st2) \<or>
                regularRequestBaseline st2 = Some rawResponse
             then el2\<lparr>rawResponseDisplay_content := InnerHTML (HighlightHTTP rawResponse)\<rparr>
             else el2)
      in w\<lparr>state := st2,
           elements := el3\<lparr>rawResponseDisplay_display := ''block'',
                           rawResponseDisplay_visibility := ''visible''\<rparr>\<rparr>)"

text \<open>
  \<^verbatim>\<open>handleSendRequest\<close> is asynchronous. Its first part runs to the \<^verbatim>\<open>await\<close>: either
  it is over (\<^verbatim>\<open>parseRequest\<close> threw and the \<^verbatim>\<open>catch\<close> block ran), or the network call
  is issued with a URL and options, in the world that the statements before it have left.
\<close>

datatype 'o send_step = Finished world | Awaiting string 'o world

definition handleSendRequest_start :: "'o collaborators \<Rightarrow> world \<Rightarrow> 'o send_step" where
  "handleSendRequest_start c w =
     (let rawContent = rawRequestInput_innerText (elements w);
          useHttps = useHttpsCheckbox_checked (elements w);
          w1 = w\<lparr>state := addToHistory rawContent useHttps (state w)\<rparr>;
          w2 = w1\<lparr>elements := updateHistoryButtons c (state w1) (elements w1)\<rparr>
      in case parseRequest c rawContent useHttps of
           Inl err \<Rightarrow> Finished (requestFailed err w2)
         | Inr (u, options) \<Rightarrow>
             Awaiting u options
               (w2\<lparr>elements := (elements w2)
                  \<lparr>resStatus_textContent := ''Sending...'',
                   resStatus_className := ''status-badge''\<rparr>\<rparr>))"

text \<open>
  Its second part runs when the call has ended, with a result or with the error it
  rejected with, in the world as it is then.
\<close>

definition handleSendRequest_resume ::
  "'o collaborators \<Rightarrow> js_error + response_result \<Rightarrow> world \<Rightarrow> world" where
  "handleSendRequest_resume c outcome w =
     (case outcome of
        Inl err \<Rightarrow> requestFailed err w
      | Inr result \<Rightarrow> responseReceived c result w)"

text \<open>The whole call, when nothing else runs while it waits.\<close>

definition handleSendRequest :: "'o collaborators \<Rightarrow> world \<Rightarrow> world" where
  "handleSendRequest c w =
     (case handleSendRequest_start c w of
        Finished w' \<Rightarrow> w'
      | Awaiting u options w' \<Rightarrow> handleSendRequest_resume c (executeRequest c u options) w')"

text \<open>Several responses received one after the other.\<close>

fun receiveAll :: "'o collaborators \<Rightarrow> response_result list \<Rightarrow> world \<Rightarrow> world" where
  "receiveAll c [] w = w"
| "receiveAll c (r # rs) w = receiveAll c rs (handleSendRequest_resume c (Inr r) w)"

section \<open>Sample inputs\<close>

text \<open>
  Inputs for the examples below. The collaborators: a parser that rejects the empty
  request and otherwise takes the text as the URL, a network that rejects every call with
  a timeout, and a body that is never JSON.
\<close>

definition sample_collaborators :: "unit collaborators" where
  "sample_collaborators =
     \<lparr>parseRequest = (\<lambda>rawContent useHttps.
          if rawContent = [] then Inl \<lparr>message = ''Empty request'', stack = ''parseRequest''\<rparr>
          else Inr (rawContent, ())),
      executeRequest = (\<lambda>u options. Inl \<lparr>message = ''timeout'', stack = ''executeRequest''\<rparr>),
      formatBytes = (\<lambda>n. string_of_nat n @ '' B''),
      jsonPretty = (\<lambda>b. None),
      updateHistoryButtons = (\<lambda>st el. el)\<rparr>"

definition sample_result1 :: response_result where
  "sample_result1 = \<lparr>status = 200, statusText = ''OK'', duration = 12, size_res = 2,
      headers = [(''content-type'', ''text/plain'')], body = ''hi''\<rparr>"

definition sample_result2 :: response_result where
  "sample_result2 = \<lparr>status = 404, statusText = ''Not Found'', duration = 7, size_res = 0,
      headers = [], body = []\<rparr>"

text \<open>A network that answers every call with \<open>sample_result1\<close>.\<close>

definition sample_collaborators_ok :: "unit collaborators" where
  "sample_collaborators_ok =
     sample_collaborators\<lparr>executeRequest := (\<lambda>u options. Inr sample_result1)\<rparr>"

definition sample_world :: world where
  "sample_world =
     \<lparr>state = \<lparr>requests = [\<lparr>request = \<lparr>url = ''/_next/static.js''\<rparr>, isOOS = False\<rparr>,
                          \<lparr>request = \<lparr>url = ''/api/users''\<rparr>, isOOS = True\<rparr>],
               requestHistory = [],
               currentResponse = None,
               regularRequestBaseline = None\<rparr>,
      oosPatterns = [],
      settings = initial_settings,
      elements = \<lparr>rawRequestInput_innerText = ''GET / HTTP/1.1'',
                  useHttpsCheckbox_checked = True,
                  resStatus_textContent = [],
                  resStatus_className = ''status-badge'',
                  resTime_textContent = [],
                  resSize_textContent = [],
                  diffToggle_display = ''none'',
                  showDiffCheckbox = Some True,
                  rawResponseDisplay_content = TextContent [],
                  rawResponseDisplay_display = ''none'',
                  rawResponseDisplay_visibility = ''visible''\<rparr>\<rparr>"

text \<open>
  A stand-in for the regular expression engine, for literal patterns: a pattern that
  starts with \<^verbatim>\<open>^\<close> matches the paths that start with the rest of it, any other
  pattern the paths that contain it, and the pattern \<^verbatim>\<open>(\<close> does not compile. URLs are
  given by their path; the empty URL is malformed.
\<close>

definition sample_regexTest :: "string \<Rightarrow> string \<Rightarrow> bool option" where
  "sample_regexTest p path =
     (if p = ''('' then None
      else Some (case p of
                   [] \<Rightarrow> True
                 | ch # q \<Rightarrow>
                     if ch = CHR ''^'' then take (length q) path = q
                     else list_ex (\<lambda>i. take (length p) (drop i path) = p) [0..<Suc (length path)]))"

definition sample_pathOf :: "string \<Rightarrow> string option" where
  "sample_pathOf u = (if u = [] then None else Some u)"

definition sample_isOutOfScope :: "string \<Rightarrow> string list \<Rightarrow> string list \<Rightarrow> bool" where
  "sample_isOutOfScope = classify sample_regexTest sample_pathOf"

text \<open>The sample world after a first response, \<open>sample_result1\<close>.\<close>

definition sample_world_set :: world where
  "sample_world_set = handleSendRequest_resume sample_collaborators (Inr sample_result1) sample_world"

text \<open>
  Ctrl+Space, a table in which two actions have that same shortcut, a table with an
  action identifier that is no property of \<^verbatim>\<open>SHORTCUT_ACTIONS\<close> at all, and a table
  (as \<^verbatim>\<open>JSON.parse\<close> of stored settings can give it) with an action identifier that is
  the name of an inherited method.
\<close>

definition sample_ctrl_space :: keyboard_event where
  "sample_ctrl_space =
     \<lparr>code = ''Space'', ctrlKey = True, metaKey = False, shiftKey = False, altKey = False\<rparr>"

definition sample_conflicting_bindings :: bindings where
  "sample_conflicting_bindings =
     [(''clearInput'', \<lparr>key = ''KeyL'', ctrl = True, shift = False, alt = False,
                         description = ''Clear request input''\<rparr>),
      (''sendRequest'', \<lparr>key = ''Space'', ctrl = True, shift = False, alt = False,
                          description = ''Send request''\<rparr>),
      (''toggleOOS'', \<lparr>key = ''Space'', ctrl = True, shift = False, alt = False,
                        description = ''Send request''\<rparr>)]"

definition sample_stale_bindings :: bindings where
  "sample_stale_bindings =
     [(''openHelp'', \<lparr>key = ''Space'', ctrl = True, shift = False, alt = False,
                       description = ''Open help''\<rparr>),
      (''sendRequest'', \<lparr>key = ''Space'', ctrl = True, shift = False, alt = False,
                          description = ''Send request''\<rparr>)]"

definition sample_inherited_bindings :: bindings where
  "sample_inherited_bindings =
     [(''hasOwnProperty'', \<lparr>key = ''Space'', ctrl = True, shift = False, alt = False,
                             description = ''Send request''\<rparr>)]"

text \<open>
  Stored settings without a pattern list, stored settings with an empty one, and a world
  whose settings hold a pattern list of the user's.
\<close>

definition sample_stored_without_oos :: stored_settings where
  "sample_stored_without_oos =
     \<lparr>stored_anthropicApiKey = None,
      stored_anthropicModel = Some ''claude-3-haiku-20240307'',
      stored_enableCorsForAllHosts = None,
      stored_oosPatterns = None,
      stored_inScopePatterns = None,
      stored_keyboardShortcuts = None\<rparr>"

definition sample_stored_empty_oos :: stored_settings where
  "sample_stored_empty_oos =
     \<lparr>stored_anthropicApiKey = Some [],
      stored_anthropicModel = Some ''claude-3-haiku-20240307'',
      stored_enableCorsForAllHosts = Some False,
      stored_oosPatterns = Some (Some []),
      stored_inScopePatterns = Some [''/api/''],
      stored_keyboardShortcuts = Some (Some [])\<rparr>"

text \<open>The error that reading a key of \<^verbatim>\<open>null\<close> throws.\<close>

definition sample_null_error :: js_error where
  "sample_null_error =
     \<lparr>message = ''Cannot read properties of null'', stack = ''loadSettings''\<rparr>"

definition sample_world_custom :: world where
  "sample_world_custom =
     sample_world\<lparr>settings := initial_settings\<lparr>oosPatterns_value := Some [''/api/'']\<rparr>\<rparr>"

section \<open>Properties of the shortcut dispatch\<close>

lemma callAction_at_most_one: "length (fst (callAction action)) \<le> Suc 0"
  by (cases action) (simp_all add: callAction_def)

lemma checkEachShortcut_skip:
  "list_all (\<lambda>b. \<not> matchesShortcut e (snd b)) pre \<Longrightarrow>
     checkEachShortcut e (pre @ bs) = checkEachShortcut e bs"
  by (induction pre) auto

lemma checkEachShortcut_at_most_one: "length (invoked (checkEachShortcut e bs)) \<le> 1"
  by (induction bs) (auto simp add: callAction_at_most_one split: option.splits)

lemma checkEachShortcut_find:
  "checkEachShortcut e bs =
     (case find (\<lambda>b. matchesShortcut e (snd b)) bs of
        None \<Rightarrow> \<lparr>defaultPrevented = False, invoked = [], raised = None\<rparr>
      | Some b \<Rightarrow>
          \<lparr>defaultPrevented = True,
           invoked = (case SHORTCUT_ACTIONS (fst b) of
                        Some a \<Rightarrow> fst (callAction a) | None \<Rightarrow> []),
           raised = (case SHORTCUT_ACTIONS (fst b) of
                       Some a \<Rightarrow> snd (callAction a) | None \<Rightarrow> None)\<rparr>)"
proof (induction bs)
  case Nil
  show ?case by simp
next
  case (Cons b bs)
  obtain actionId sc where b: "b = (actionId, sc)" by (cases b)
  show ?case
  proof (cases "matchesShortcut e sc")
    case True
    then show ?thesis using b by (simp split: option.splits)
  next
    case False
    then show ?thesis using b Cons.IH by simp
  qed
qed

lemma checkEachShortcut_first:
  assumes "list_all (\<lambda>b. \<not> matchesShortcut e (snd b)) pre" and "matchesShortcut e sc"
  shows "checkEachShortcut e (pre @ (actionId, sc) # rest) =
           \<lparr>defaultPrevented = True,
            invoked = (case SHORTCUT_ACTIONS actionId of
                         Some a \<Rightarrow> fst (callAction a) | None \<Rightarrow> []),
            raised = (case SHORTCUT_ACTIONS actionId of
                        Some a \<Rightarrow> snd (callAction a) | None \<Rightarrow> None)\<rparr>"
proof -
  have "checkEachShortcut e (pre @ (actionId, sc) # rest) =
          checkEachShortcut e ((actionId, sc) # rest)"
    using assms(1) by (rule checkEachShortcut_skip)
  also have "\<dots> = \<lparr>defaultPrevented = True,
            invoked = (case SHORTCUT_ACTIONS actionId of
                         Some a \<Rightarrow> fst (callAction a) | None \<Rightarrow> []),
            raised = (case SHORTCUT_ACTIONS actionId of
                        Some a \<Rightarrow> snd (callAction a) | None \<Rightarrow> None)\<rparr>"
    using assms(2) by (simp split: option.splits)
  finally show ?thesis .
qed

text \<open>
  C5. A shortcut matches an event exactly when the four tests agree: the event's code is
  the shortcut's key, "ctrl or meta is down" equals the shortcut's ctrl flag, shift down
  equals its shift flag and alt down equals its alt flag. So a modifier that is down and
  that the shortcut does not ask for prevents the match.
\<close>

theorem matchesShortcut_exact:
  "(matchesShortcut e sc \<longleftrightarrow>
      code e = key sc \<and> (ctrlKey e \<or> metaKey e) = ctrl sc \<and>
      shiftKey e = shift sc \<and> altKey e = alt sc) \<and>
   ((ctrlKey e \<or> metaKey e) \<and> \<not> ctrl sc \<longrightarrow> \<not> matchesShortcut e sc) \<and>
   (shiftKey e \<and> \<not> shift sc \<longrightarrow> \<not> matchesShortcut e sc) \<and>
   (altKey e \<and> \<not> alt sc \<longrightarrow> \<not> matchesShortcut e sc)"
proof -
  have iff: "matchesShortcut e sc \<longleftrightarrow>
      code e = key sc \<and> (ctrlKey e \<or> metaKey e) = ctrl sc \<and>
      shiftKey e = shift sc \<and> altKey e = alt sc"
    unfolding matchesShortcut_def Let_def by (cases "ctrl sc"; cases "shift sc"; cases "alt sc") simp_all
  show ?thesis
    using iff by blast
qed

theorem matchesShortcut_exact_witness:
  "matchesShortcut
     \<lparr>code = ''Space'', ctrlKey = False, metaKey = True, shiftKey = False, altKey = False\<rparr>
     \<lparr>key = ''Space'', ctrl = True, shift = False, alt = False, description = ''Send request''\<rparr> \<and>
   \<not> matchesShortcut
     \<lparr>code = ''Space'', ctrlKey = True, metaKey = False, shiftKey = True, altKey = False\<rparr>
     \<lparr>key = ''Space'', ctrl = True, shift = False, alt = False, description = ''Send request''\<rparr>"
  using matchesShortcut_exact
          [of "\<lparr>code = ''Space'', ctrlKey = False, metaKey = True, shiftKey = False, altKey = False\<rparr>"
              "\<lparr>key = ''Space'', ctrl = True, shift = False, alt = False, description = ''Send request''\<rparr>"]
        matchesShortcut_exact
          [of "\<lparr>code = ''Space'', ctrlKey = True, metaKey = False, shiftKey = True, altKey = False\<rparr>"
              "\<lparr>key = ''Space'', ctrl = True, shift = False, alt = False, description = ''Send request''\<rparr>"]
  by simp

text \<open>
  C6. The listener goes through the entries of the active table in their order and acts
  on the first entry that matches the event, and on no other: its effects are those of
  that entry (the default prevented, and what the lookup of the entry's identifier gives
  called, if it gives something), at most one call is made, and of two entries with the
  same shortcut the earlier one is the one acted on, whatever follows it; when the
  earlier one names one of the three actions, that action runs and nothing is thrown.
\<close>

theorem keydownListener_first_match:
  "keydownListener v e =
     (case find (\<lambda>b. matchesShortcut e (snd b)) (activeShortcuts v) of
        None \<Rightarrow> \<lparr>defaultPrevented = False, invoked = [], raised = None\<rparr>
      | Some b \<Rightarrow>
          \<lparr>defaultPrevented = True,
           invoked = (case SHORTCUT_ACTIONS (fst b) of
                        Some a \<Rightarrow> fst (callAction a) | None \<Rightarrow> []),
           raised = (case SHORTCUT_ACTIONS (fst b) of
                       Some a \<Rightarrow> snd (callAction a) | None \<Rightarrow> None)\<rparr>) \<and>
   length (invoked (keydownListener v e)) \<le> 1 \<and>
   (activeShortcuts v = pre @ (a1, sc) # mid @ (a2, sc) # post \<and>
    list_all (\<lambda>b. \<not> matchesShortcut e (snd b)) pre \<and> matchesShortcut e sc \<longrightarrow>
      keydownListener v e =
        \<lparr>defaultPrevented = True,
         invoked = (case SHORTCUT_ACTIONS a1 of
                      Some a \<Rightarrow> fst (callAction a) | None \<Rightarrow> []),
         raised = (case SHORTCUT_ACTIONS a1 of
                     Some a \<Rightarrow> snd (callAction a) | None \<Rightarrow> None)\<rparr>) \<and>
   (activeShortcuts v = pre @ (a1, sc) # mid @ (a2, sc) # post \<and>
    list_all (\<lambda>b. \<not> matchesShortcut e (snd b)) pre \<and> matchesShortcut e sc \<and>
    SHORTCUT_ACTIONS a1 = Some (OwnAction act) \<longrightarrow>
      keydownListener v e = \<lparr>defaultPrevented = True, invoked = [Ran act], raised = None\<rparr>)"
proof -
  have by_find: "keydownListener v e =
     (case find (\<lambda>b. matchesShortcut e (snd b)) (activeShortcuts v) of
        None \<Rightarrow> \<lparr>defaultPrevented = False, invoked = [], raised = None\<rparr>
      | Some b \<Rightarrow>
          \<lparr>defaultPrevented = True,
           invoked = (case SHORTCUT_ACTIONS (fst b) of
                        Some a \<Rightarrow> fst (callAction a) | None \<Rightarrow> []),
           raised = (case SHORTCUT_ACTIONS (fst b) of
                       Some a \<Rightarrow> snd (callAction a) | None \<Rightarrow> None)\<rparr>)"
    unfolding keydownListener_def by (rule checkEachShortcut_find)
  have one: "length (invoked (keydownListener v e)) \<le> 1"
    unfolding keydownListener_def by (rule checkEachShortcut_at_most_one)
  have earlier: "keydownListener v e =
        \<lparr>defaultPrevented = True,
         invoked = (case SHORTCUT_ACTIONS a1 of
                      Some a \<Rightarrow> fst (callAction a) | None \<Rightarrow> []),
         raised = (case SHORTCUT_ACTIONS a1 of
                     Some a \<Rightarrow> snd (callAction a) | None \<Rightarrow> None)\<rparr>"
    if a: "activeShortcuts v = pre @ (a1, sc) # mid @ (a2, sc) # post"
      and n: "list_all (\<lambda>b. \<not> matchesShortcut e (snd b)) pre" and m: "matchesShortcut e sc"
  proof -
    have "checkEachShortcut e (pre @ (a1, sc) # (mid @ (a2, sc) # post)) =
        \<lparr>defaultPrevented = True,
         invoked = (case SHORTCUT_ACTIONS a1 of
                      Some a \<Rightarrow> fst (callAction a) | None \<Rightarrow> []),
         raised = (case SHORTCUT_ACTIONS a1 of
                     Some a \<Rightarrow> snd (callAction a) | None \<Rightarrow> None)\<rparr>"
      using n m by (rule checkEachShortcut_first)
    then show ?thesis
      unfolding keydownListener_def using a by simp
  qed
  have own: "keydownListener v e = \<lparr>defaultPrevented = True, invoked = [Ran act], raised = None\<rparr>"
    if "activeShortcuts v = pre @ (a1, sc) # mid @ (a2, sc) # post"
      and "list_all (\<lambda>b. \<not> matchesShortcut e (snd b)) pre" and "matchesShortcut e sc"
      and "SHORTCUT_ACTIONS a1 = Some (OwnAction act)"
    using earlier [OF that(1,2,3)] that(4) by (simp add: callAction_def)
  show ?thesis
    using by_find one earlier own by blast
qed

theorem keydownListener_first_match_witness:
  "activeShortcuts (Some sample_conflicting_bindings) =
     [(''clearInput'', \<lparr>key = ''KeyL'', ctrl = True, shift = False, alt = False,
                         description = ''Clear request input''\<rparr>)] @
     (''sendRequest'', \<lparr>key = ''Space'', ctrl = True, shift = False, alt = False,
                          description = ''Send request''\<rparr>) # [] @
     (''toggleOOS'', \<lparr>key = ''Space'', ctrl = True, shift = False, alt = False,
                        description = ''Send request''\<rparr>) # [] \<and>
   matchesShortcut sample_ctrl_space
     \<lparr>key = ''Space'', ctrl = True, shift = False, alt = False, description = ''Send request''\<rparr> \<and>
   SHORTCUT_ACTIONS ''sendRequest'' = Some (OwnAction SendRequestAction) \<and>
   keydownListener (Some sample_conflicting_bindings) sample_ctrl_space =
     \<lparr>defaultPrevented = True, invoked = [Ran SendRequestAction], raised = None\<rparr> \<and>
   keydownListener None sample_ctrl_space =
     \<lparr>defaultPrevented = True, invoked = [Ran SendRequestAction], raised = None\<rparr>"
proof -
  have a: "activeShortcuts (Some sample_conflicting_bindings) =
     [(''clearInput'', \<lparr>key = ''KeyL'', ctrl = True, shift = False, alt = False,
                         description = ''Clear request input''\<rparr>)] @
     (''sendRequest'', \<lparr>key = ''Space'', ctrl = True, shift = False, alt = False,
                          description = ''Send request''\<rparr>) # [] @
     (''toggleOOS'', \<lparr>key = ''Space'', ctrl = True, shift = False, alt = False,
                        description = ''Send request''\<rparr>) # []"
    by (simp add: activeShortcuts_def sample_conflicting_bindings_def)
  have m: "matchesShortcut sample_ctrl_space
     \<lparr>key = ''Space'', ctrl = True, shift = False, alt = False, description = ''Send request''\<rparr>"
    by (simp add: matchesShortcut_def sample_ctrl_space_def)
  have n: "list_all (\<lambda>b. \<not> matchesShortcut sample_ctrl_space (snd b))
     [(''clearInput'', \<lparr>key = ''KeyL'', ctrl = True, shift = False, alt = False,
                         description = ''Clear request input''\<rparr>)]"
    by (simp add: matchesShortcut_def sample_ctrl_space_def)
  have s: "SHORTCUT_ACTIONS ''sendRequest'' = Some (OwnAction SendRequestAction)"
    by (simp add: SHORTCUT_ACTIONS_def)
  have d: "find (\<lambda>b. matchesShortcut sample_ctrl_space (snd b)) (activeShortcuts None) =
     Some (''sendRequest'', \<lparr>key = ''Space'', ctrl = True, shift = False, alt = False,
                          description = ''Send request''\<rparr>)"
    by (simp add: activeShortcuts_def keyboardShortcuts_default_def matchesShortcut_def
          sample_ctrl_space_def)
  have first: "keydownListener (Some sample_conflicting_bindings) sample_ctrl_space =
     \<lparr>defaultPrevented = True, invoked = [Ran SendRequestAction], raised = None\<rparr>"
    using keydownListener_first_match
            [of "Some sample_conflicting_bindings" sample_ctrl_space
                "[(''clearInput'', \<lparr>key = ''KeyL'', ctrl = True, shift = False, alt = False,
                         description = ''Clear request input''\<rparr>)]"
                "''sendRequest''"
                "\<lparr>key = ''Space'', ctrl = True, shift = False, alt = False,
                          description = ''Send request''\<rparr>"
                "[]" "''toggleOOS''" "[]" SendRequestAction]
          a m n s
    by (simp add: callAction_def)
  have dflt: "keydownListener None sample_ctrl_space =
     \<lparr>defaultPrevented = True, invoked = [Ran SendRequestAction], raised = None\<rparr>"
    using keydownListener_first_match
            [of None sample_ctrl_space "[]" "[]" undefined "[]" "[]" "[]" undefined]
          d s
    by (simp add: callAction_def)
  show ?thesis
    using a m s first dflt by simp
qed

text \<open>
  An action identifier that is no property of \<^verbatim>\<open>SHORTCUT_ACTIONS\<close>, own or inherited,
  is ignored: when the entry that the listener acts on has such an identifier, nothing is
  called and nothing is thrown; the default of the event has still been prevented.
\<close>

lemma unknown_action_ignored:
  assumes "find (\<lambda>b. matchesShortcut e (snd b)) (activeShortcuts v) = Some (actionId, sc)"
    and "SHORTCUT_ACTIONS actionId = None"
  shows "keydownListener v e = \<lparr>defaultPrevented = True, invoked = [], raised = None\<rparr>"
  unfolding keydownListener_def using assms by (simp add: checkEachShortcut_find)

lemma unknown_action_ignored_example:
  "SHORTCUT_ACTIONS ''openHelp'' = None \<and>
   keydownListener (Some sample_stale_bindings) sample_ctrl_space =
     \<lparr>defaultPrevented = True, invoked = [], raised = None\<rparr>"
proof -
  have f: "find (\<lambda>b. matchesShortcut sample_ctrl_space (snd b))
             (activeShortcuts (Some sample_stale_bindings)) =
     Some (''openHelp'', \<lparr>key = ''Space'', ctrl = True, shift = False, alt = False,
                           description = ''Open help''\<rparr>)"
    by (simp add: activeShortcuts_def sample_stale_bindings_def matchesShortcut_def
          sample_ctrl_space_def)
  have n: "SHORTCUT_ACTIONS ''openHelp'' = None"
    by (simp add: SHORTCUT_ACTIONS_def Object_prototype_methods_def)
  show ?thesis
    using unknown_action_ignored [OF f n] n by simp
qed

text \<open>
  C9. The claim: when the event matches a binding whose action identifier has no
  registered handler, the listener ignores it, calls nothing and raises no error. The
  listener does not do this for an identifier that names something \<^verbatim>\<open>SHORTCUT_ACTIONS\<close>
  inherits. With the one binding \<^verbatim>\<open>hasOwnProperty\<close> on Ctrl+Space and the event
  Ctrl+Space, the identifier is none of the three registered ones, the lookup gives the
  inherited method, the test \<^verbatim>\<open>if (action)\<close> passes, the method is called and throws a
  \<^verbatim>\<open>TypeError\<close>.
\<close>

theorem inherited_action_called_and_throws:
  "activeShortcuts (Some sample_inherited_bindings) =
     [(''hasOwnProperty'', \<lparr>key = ''Space'', ctrl = True, shift = False, alt = False,
                             description = ''Send request''\<rparr>)] \<and>
   matchesShortcut sample_ctrl_space
     \<lparr>key = ''Space'', ctrl = True, shift = False, alt = False, description = ''Send request''\<rparr> \<and>
   SHORTCUT_ACTIONS ''hasOwnProperty'' = Some (InheritedMethod ''hasOwnProperty'') \<and>
   keydownListener (Some sample_inherited_bindings) sample_ctrl_space =
     \<lparr>defaultPrevented = True, invoked = [RanInherited ''hasOwnProperty''],
      raised = Some TypeError\<rparr>"
  by (simp add: keydownListener_def activeShortcuts_def sample_inherited_bindings_def
        matchesShortcut_def sample_ctrl_space_def SHORTCUT_ACTIONS_def
        Object_prototype_methods_def callAction_def)

section \<open>Properties of the classification\<close>

text \<open>
  C1. In the classifier of the specification, a URL whose path and query match at least
  one in-scope pattern is classified as not out of scope, whatever the list of
  out-of-scope patterns holds.
\<close>

theorem inScope_overrides_oos:
  assumes "pathOf u = Some path" and "p \<in> set inScope" and "regexTest p path = Some True"
  shows "classify regexTest pathOf u oos inScope = False"
proof -
  have "matches regexTest path inScope"
    unfolding matches_def list_ex_iff using assms(2,3) by blast
  then show ?thesis
    using assms(1) by (simp add: classify_def)
qed

theorem inScope_overrides_oos_witness:
  "sample_pathOf ''/_next/data/api.json'' = Some ''/_next/data/api.json'' \<and>
   ''/data/'' \<in> set [''^/admin'', ''/data/''] \<and>
   sample_regexTest ''/data/'' ''/_next/data/api.json'' = Some True \<and>
   classify sample_regexTest sample_pathOf ''/_next/data/api.json'' [''^/_next/'']
     [''^/admin'', ''/data/''] = False \<and>
   classify sample_regexTest sample_pathOf ''/_next/data/api.json'' [''^/_next/''] [] = True"
proof -
  have a: "sample_pathOf ''/_next/data/api.json'' = Some ''/_next/data/api.json''"
    by (simp add: sample_pathOf_def)
  have b: "''/data/'' \<in> set [''^/admin'', ''/data/'']"
    by simp
  have c: "sample_regexTest ''/data/'' ''/_next/data/api.json'' = Some True"
    by code_simp
  have d: "classify sample_regexTest sample_pathOf ''/_next/data/api.json'' [''^/_next/''] [] = True"
    by code_simp
  show ?thesis
    using inScope_overrides_oos
            [where pathOf = sample_pathOf and regexTest = sample_regexTest
               and oos = "[''^/_next/'']", OF a b c]
          a b c d
    by simp
qed

text \<open>
  C4. Reclassifying twice gives the state that reclassifying once gives, so the same flag
  on every request; the list keeps its length and its order, each request is the one
  that was there with its flag recomputed, and the captured requests are the same. This
  holds for every classifier, so for the one of every pair of pattern lists.
\<close>

theorem reclassifyAllRequests_idempotent:
  "reclassifyAllRequests f (reclassifyAllRequests f st) = reclassifyAllRequests f st \<and>
   map isOOS (requests (reclassifyAllRequests f (reclassifyAllRequests f st))) =
     map isOOS (requests (reclassifyAllRequests f st)) \<and>
   list_all2 (\<lambda>r r'. r' = r\<lparr>isOOS := f (url (request r))\<rparr>)
     (requests st) (requests (reclassifyAllRequests f st)) \<and>
   map request (requests (reclassifyAllRequests f st)) = map request (requests st) \<and>
   length (requests (reclassifyAllRequests f st)) = length (requests st)"
proof -
  have twice: "reclassifyAllRequests f (reclassifyAllRequests f st) = reclassifyAllRequests f st"
    by (simp add: reclassifyAllRequests_def comp_def)
  have pointwise: "list_all2 (\<lambda>r r'. r' = r\<lparr>isOOS := f (url (request r))\<rparr>)
     (requests st) (requests (reclassifyAllRequests f st))"
    by (simp add: reclassifyAllRequests_def list_all2_conv_all_nth)
  have same: "map request (requests (reclassifyAllRequests f st)) = map request (requests st)"
    by (simp add: reclassifyAllRequests_def comp_def)
  show ?thesis
    using twice pointwise same by (simp add: reclassifyAllRequests_def)
qed

theorem reclassifyAllRequests_idempotent_witness:
  "map isOOS (requests (state sample_world)) = [False, True] \<and>
   map isOOS (requests (reclassifyAllRequests
      (\<lambda>u. sample_isOutOfScope u DEFAULT_OOS_PATTERNS []) (state sample_world))) = [True, False] \<and>
   map isOOS (requests (reclassifyAllRequests (\<lambda>u. sample_isOutOfScope u DEFAULT_OOS_PATTERNS [])
      (reclassifyAllRequests
         (\<lambda>u. sample_isOutOfScope u DEFAULT_OOS_PATTERNS []) (state sample_world)))) = [True, False]"
proof -
  have before: "map isOOS (requests (state sample_world)) = [False, True]"
    by (simp add: sample_world_def)
  have once: "map isOOS (requests (reclassifyAllRequests
      (\<lambda>u. sample_isOutOfScope u DEFAULT_OOS_PATTERNS []) (state sample_world))) = [True, False]"
    by code_simp
  show ?thesis
    using reclassifyAllRequests_idempotent
            [of "\<lambda>u. sample_isOutOfScope u DEFAULT_OOS_PATTERNS []" "state sample_world"]
          before once
    by simp
qed

section \<open>Properties of loading the settings\<close>

lemma DEFAULT_OOS_PATTERNS_nonempty: "DEFAULT_OOS_PATTERNS \<noteq> []"
  by (simp add: DEFAULT_OOS_PATTERNS_def)

lemma loadSettings_loaded:
  assumes "stored = NoItem \<or> stored = ParsedValue parsed" and "permission = Inr b"
  shows "loadSettings f stored permission w =
     (let patterns = (case oosPatterns_value (mergeStored stored (settings w)) of
                        None \<Rightarrow> DEFAULT_OOS_PATTERNS
                      | Some ps \<Rightarrow> if length ps = 0 then DEFAULT_OOS_PATTERNS else ps);
          s3 = (mergeStored stored (settings w))
                 \<lparr>enableCorsForAllHosts_value := b, oosPatterns_value := Some patterns\<rparr>
      in (Loaded,
          w\<lparr>settings := s3, oosPatterns := patterns,
            state := reclassifyAllRequests (\<lambda>u. f u patterns (inScopePatterns_value s3)) (state w)\<rparr>))"
  using assms
  by (auto simp add: loadSettings_def Let_def updateOOSPatterns_def)

text \<open>
  A call that fails (the stored item does not parse or parses to \<^verbatim>\<open>null\<close>, or the
  permission check throws) installs nothing: the classifier's patterns stay, and the list
  of the settings is the stored or the earlier one, empty or not.
\<close>

lemma loadSettings_failed:
  "loadSettings f (Unparsable e) permission w = (LoadFailed e, w)"
  "loadSettings f (ParsedNull e) permission w = (LoadFailed e, w)"
  "stored = NoItem \<or> stored = ParsedValue parsed \<Longrightarrow>
     loadSettings f stored (Inl e) w =
       (LoadFailed e, w\<lparr>settings := mergeStored stored (settings w)\<rparr>)"
  by (auto simp add: loadSettings_def Let_def)

text \<open>
  C10, as amended. When \<^verbatim>\<open>loadSettings\<close> runs to the end of its \<^verbatim>\<open>try\<close> block (the
  stored item is missing or parses to a value other than \<^verbatim>\<open>null\<close>, and the permission
  check answers), the out-of-scope pattern list is never empty afterwards: the list in
  effect once the stored settings have been applied (the stored list when the stored
  settings have one, the list already in memory otherwise) is kept when it is not empty
  and replaced by a copy of the default list when it is missing or empty; that list is
  the value of the setting and the classifier's patterns, and the requests are
  reclassified under it.
\<close>

theorem loadSettings_oos_never_empty:
  assumes "stored = NoItem \<or> stored = ParsedValue parsed" and "permission = Inr b"
  shows "fst (loadSettings f stored permission w) = Loaded \<and>
         oosPatterns (snd (loadSettings f stored permission w)) \<noteq> [] \<and>
         oosPatterns_value (settings (snd (loadSettings f stored permission w))) =
           Some (oosPatterns (snd (loadSettings f stored permission w))) \<and>
         oosPatterns (snd (loadSettings f stored permission w)) =
           (case oosPatterns_value (mergeStored stored (settings w)) of
              None \<Rightarrow> DEFAULT_OOS_PATTERNS
            | Some ps \<Rightarrow> if length ps = 0 then DEFAULT_OOS_PATTERNS else ps) \<and>
         state (snd (loadSettings f stored permission w)) =
           reclassifyAllRequests
             (\<lambda>u. f u (oosPatterns (snd (loadSettings f stored permission w)))
                     (inScopePatterns_value (settings (snd (loadSettings f stored permission w)))))
             (state w)"
proof -
  let ?patterns = "case oosPatterns_value (mergeStored stored (settings w)) of
              None \<Rightarrow> DEFAULT_OOS_PATTERNS
            | Some ps \<Rightarrow> if length ps = 0 then DEFAULT_OOS_PATTERNS else ps"
  have ne: "?patterns \<noteq> []"
    using DEFAULT_OOS_PATTERNS_nonempty by (simp split: option.splits)
  show ?thesis
    unfolding loadSettings_loaded [OF assms] Let_def using ne by simp
qed

theorem loadSettings_oos_never_empty_witness:
  "fst (loadSettings sample_isOutOfScope (ParsedValue sample_stored_empty_oos) (Inr True)
          sample_world_custom) = Loaded \<and>
   oosPatterns (snd (loadSettings sample_isOutOfScope (ParsedValue sample_stored_empty_oos) (Inr True)
          sample_world_custom)) = DEFAULT_OOS_PATTERNS \<and>
   oosPatterns_value (settings (snd (loadSettings sample_isOutOfScope
          (ParsedValue sample_stored_empty_oos) (Inr True) sample_world_custom))) =
     Some DEFAULT_OOS_PATTERNS \<and>
   map isOOS (requests (state (snd (loadSettings sample_isOutOfScope
          (ParsedValue sample_stored_empty_oos) (Inr True) sample_world_custom)))) = [True, False]"
proof -
  let ?L = "loadSettings sample_isOutOfScope (ParsedValue sample_stored_empty_oos) (Inr True)
          sample_world_custom"
  have merged: "oosPatterns_value
      (mergeStored (ParsedValue sample_stored_empty_oos) (settings sample_world_custom)) = Some []"
    by (simp add: mergeStored_def applyStored_def sample_stored_empty_oos_def)
  have inScope: "inScopePatterns_value (settings (snd ?L)) = [''/api/'']"
    by (simp add: loadSettings_def Let_def updateOOSPatterns_def mergeStored_def applyStored_def
          sample_stored_empty_oos_def)
  have flags: "map isOOS (requests (reclassifyAllRequests
      (\<lambda>u. sample_isOutOfScope u DEFAULT_OOS_PATTERNS [''/api/'']) (state sample_world_custom))) =
      [True, False]"
    by code_simp
  have all: "fst ?L = Loaded \<and> oosPatterns (snd ?L) = DEFAULT_OOS_PATTERNS \<and>
      oosPatterns_value (settings (snd ?L)) = Some DEFAULT_OOS_PATTERNS \<and>
      state (snd ?L) = reclassifyAllRequests
        (\<lambda>u. sample_isOutOfScope u DEFAULT_OOS_PATTERNS [''/api/'']) (state sample_world_custom)"
    using loadSettings_oos_never_empty
            [of "ParsedValue sample_stored_empty_oos" sample_stored_empty_oos "Inr True" True
                sample_isOutOfScope sample_world_custom]
    by (simp add: merged inScope)
  show ?thesis
    using all flags by simp
qed

text \<open>
  The claim as it was stated fails in two places. A call that ends in the \<^verbatim>\<open>catch\<close>
  block is over without the defaults: with the stored item \<^verbatim>\<open>null\<close> and the settings as
  the module starts with them, the call returns and the list of the settings is still
  empty. And where the stored settings have no pattern list and the settings in memory
  have one, the call runs to its end and the list in memory stays: it is not the default
  list.
\<close>

theorem loadSettings_defaults_not_applied_counterexample:
  "oosPatterns_value (settings sample_world) = Some [] \<and>
   fst (loadSettings sample_isOutOfScope (ParsedNull sample_null_error) (Inr True) sample_world) =
     LoadFailed sample_null_error \<and>
   oosPatterns_value (settings (snd (loadSettings sample_isOutOfScope
          (ParsedNull sample_null_error) (Inr True) sample_world))) = Some [] \<and>
   stored_oosPatterns sample_stored_without_oos = None \<and>
   fst (loadSettings sample_isOutOfScope (ParsedValue sample_stored_without_oos) (Inr True)
          sample_world_custom) = Loaded \<and>
   oosPatterns (snd (loadSettings sample_isOutOfScope (ParsedValue sample_stored_without_oos)
          (Inr True) sample_world_custom)) = [''/api/''] \<and>
   oosPatterns_value (settings (snd (loadSettings sample_isOutOfScope
          (ParsedValue sample_stored_without_oos) (Inr True) sample_world_custom))) \<noteq>
     Some DEFAULT_OOS_PATTERNS"
  by (simp add: loadSettings_def Let_def mergeStored_def applyStored_def updateOOSPatterns_def
        sample_stored_without_oos_def sample_world_custom_def sample_world_def
        initial_settings_def DEFAULT_OOS_PATTERNS_def)

section \<open>Properties of sending a request\<close>

lemma falsy_rawResponseOf: "\<not> falsy (Some (rawResponseOf p r))"
  by (simp add: falsy_def rawResponseOf_def)

lemma responseReceived_baseline:
  "regularRequestBaseline (state (responseReceived c r w)) =
     (if falsy (regularRequestBaseline (state w)) then Some (rawResponseOf (jsonPretty c) r)
      else regularRequestBaseline (state w))"
  by (simp add: responseReceived_def Let_def falsy_def split: option.splits)

lemma responseReceived_current:
  "currentResponse (state (responseReceived c r w)) = Some (rawResponseOf (jsonPretty c) r)"
  by (simp add: responseReceived_def Let_def falsy_def split: option.splits)

lemma responseReceived_content:
  "regularRequestBaseline (state w) = Some b \<Longrightarrow> b \<noteq> [] \<Longrightarrow>
   rawResponseDisplay_content (elements (responseReceived c r w)) =
     (if showDiffCheckbox (elements w) = Some True \<and> b \<noteq> rawResponseOf (jsonPretty c) r
      then InnerHTML (RenderDiff b (rawResponseOf (jsonPretty c) r))
      else InnerHTML (HighlightHTTP (rawResponseOf (jsonPretty c) r)))"
  by (cases "showDiffCheckbox (elements w)")
     (auto simp add: responseReceived_def Let_def falsy_def split: option.splits)

lemma receiveAll_set:
  "\<not> falsy (regularRequestBaseline (state w)) \<Longrightarrow>
     regularRequestBaseline (state (receiveAll c rs w)) = regularRequestBaseline (state w)"
proof (induction rs arbitrary: w)
  case Nil
  show ?case by simp
next
  case (Cons r rs)
  let ?w1 = "handleSendRequest_resume c (Inr r) w"
  have keep: "regularRequestBaseline (state ?w1) = regularRequestBaseline (state w)"
    using Cons.prems by (simp add: handleSendRequest_resume_def responseReceived_baseline)
  then have "\<not> falsy (regularRequestBaseline (state ?w1))"
    using Cons.prems by simp
  then have "regularRequestBaseline (state (receiveAll c rs ?w1)) = regularRequestBaseline (state ?w1)"
    by (rule Cons.IH)
  then show ?case using keep by simp
qed

lemma receiveAll_current:
  "currentResponse (state (receiveAll c (r # rs) w)) =
     Some (rawResponseOf (jsonPretty c) (last (r # rs)))"
proof (induction rs arbitrary: r w)
  case Nil
  show ?case by (simp add: handleSendRequest_resume_def responseReceived_current)
next
  case (Cons r' rs)
  have "receiveAll c (r # r' # rs) w = receiveAll c (r' # rs) (handleSendRequest_resume c (Inr r) w)"
    by simp
  then show ?case using Cons.IH by simp
qed

lemma requestFailed_state: "state (requestFailed err w) = state w"
  by (simp add: requestFailed_def)

lemma requestFailed_frame:
  "oosPatterns (requestFailed err w) = oosPatterns w \<and> settings (requestFailed err w) = settings w"
  by (simp add: requestFailed_def)

lemma responseReceived_history:
  "requestHistory (state (responseReceived c r w)) = requestHistory (state w)"
  by (simp add: responseReceived_def Let_def split: option.splits)

lemma resume_history:
  "requestHistory (state (handleSendRequest_resume c outcome w)) = requestHistory (state w)"
  by (cases outcome)
     (simp_all add: handleSendRequest_resume_def requestFailed_state responseReceived_history)

lemma start_history:
  "(case handleSendRequest_start c w of
      Finished w' \<Rightarrow> requestHistory (state w')
    | Awaiting u opts w' \<Rightarrow> requestHistory (state w')) =
   requestHistory (state w) @
     [(rawRequestInput_innerText (elements w), useHttpsCheckbox_checked (elements w))]"
  by (simp add: handleSendRequest_start_def Let_def addToHistory_def requestFailed_state
           split: sum.splits prod.splits)

lemma start_awaiting:
  assumes "parseRequest c (rawRequestInput_innerText (elements w))
             (useHttpsCheckbox_checked (elements w)) = Inr (u, opts)"
  shows "\<exists>w1. handleSendRequest_start c w = Awaiting u opts w1 \<and>
           regularRequestBaseline (state w1) = regularRequestBaseline (state w) \<and>
           currentResponse (state w1) = currentResponse (state w) \<and>
           oosPatterns w1 = oosPatterns w \<and> settings w1 = settings w"
  using assms by (simp add: handleSendRequest_start_def Let_def addToHistory_def)

lemma handleSendRequest_rejected:
  assumes "parseRequest c (rawRequestInput_innerText (elements w))
             (useHttpsCheckbox_checked (elements w)) = Inr (u, opts)"
    and "executeRequest c u opts = Inl err"
  shows "handleSendRequest c w =
     w\<lparr>state := addToHistory (rawRequestInput_innerText (elements w))
                  (useHttpsCheckbox_checked (elements w)) (state w),
       elements :=
         (updateHistoryButtons c
            (addToHistory (rawRequestInput_innerText (elements w))
               (useHttpsCheckbox_checked (elements w)) (state w))
            (elements w))
         \<lparr>resStatus_textContent := ''Error'',
          resStatus_className := ''status-badge status-5xx'',
          resTime_textContent := ''0ms'',
          rawResponseDisplay_content :=
            TextContent (''Error: '' @ message err @ ''\<newline>\<newline>Stack: '' @ stack err),
          rawResponseDisplay_display := ''block''\<rparr>\<rparr>"
  using assms
  by (simp add: handleSendRequest_def handleSendRequest_start_def handleSendRequest_resume_def
        requestFailed_def Let_def)

lemma sample_raw1:
  "rawResponseOf (jsonPretty sample_collaborators) sample_result1 =
     ''HTTP/1.1 200 OK\<newline>content-type: text/plain\<newline>\<newline>hi''"
  by (simp add: rawResponseOf_def sample_collaborators_def sample_result1_def string_of_nat.simps)

lemma sample_raw2:
  "rawResponseOf (jsonPretty sample_collaborators) sample_result2 =
     ''HTTP/1.1 404 Not Found\<newline>\<newline>''"
  by (simp add: rawResponseOf_def sample_collaborators_def sample_result2_def string_of_nat.simps)

lemma sample_world_set_baseline:
  "regularRequestBaseline (state sample_world_set) =
     Some ''HTTP/1.1 200 OK\<newline>content-type: text/plain\<newline>\<newline>hi''"
  unfolding sample_world_set_def handleSendRequest_resume_def
  by (simp add: responseReceived_baseline sample_raw1 falsy_def sample_world_def)

lemma sample_world_set_checkbox: "showDiffCheckbox (elements sample_world_set) = Some True"
  unfolding sample_world_set_def handleSendRequest_resume_def
  by (simp add: responseReceived_def Let_def sample_world_def split: option.splits)

text \<open>
  C8. Every call of the send-request operation appends the raw request text and the
  https flag to the request history before the network call: the history has the new
  entry in the world in which the call is issued (and in the world the operation ends in
  when the request does not parse), and it has it when the operation is over, whatever
  the parser and the network did.
\<close>

theorem history_appended_before_call:
  "(case handleSendRequest_start c w of
      Finished w' \<Rightarrow> requestHistory (state w')
    | Awaiting u opts w' \<Rightarrow> requestHistory (state w')) =
     requestHistory (state w) @
       [(rawRequestInput_innerText (elements w), useHttpsCheckbox_checked (elements w))] \<and>
   requestHistory (state (handleSendRequest c w)) =
     requestHistory (state w) @
       [(rawRequestInput_innerText (elements w), useHttpsCheckbox_checked (elements w))]"
proof
  show first: "(case handleSendRequest_start c w of
      Finished w' \<Rightarrow> requestHistory (state w')
    | Awaiting u opts w' \<Rightarrow> requestHistory (state w')) =
     requestHistory (state w) @
       [(rawRequestInput_innerText (elements w), useHttpsCheckbox_checked (elements w))]"
    by (rule start_history)
  show "requestHistory (state (handleSendRequest c w)) =
     requestHistory (state w) @
       [(rawRequestInput_innerText (elements w), useHttpsCheckbox_checked (elements w))]"
  proof (cases "handleSendRequest_start c w")
    case (Finished w')
    then show ?thesis using first by (simp add: handleSendRequest_def)
  next
    case (Awaiting u opts w')
    then show ?thesis using first by (simp add: handleSendRequest_def resume_history)
  qed
qed

theorem history_appended_before_call_witness:
  "handleSendRequest_start sample_collaborators sample_world =
     Awaiting ''GET / HTTP/1.1'' ()
       (sample_world
          \<lparr>state := (state sample_world)\<lparr>requestHistory := [(''GET / HTTP/1.1'', True)]\<rparr>,
           elements := (elements sample_world)
             \<lparr>resStatus_textContent := ''Sending...'', resStatus_className := ''status-badge''\<rparr>\<rparr>) \<and>
   requestHistory (state (handleSendRequest sample_collaborators sample_world)) =
     [(''GET / HTTP/1.1'', True)] \<and>
   requestHistory (state (handleSendRequest sample_collaborators_ok sample_world)) =
     [(''GET / HTTP/1.1'', True)]"
proof -
  have start: "handleSendRequest_start sample_collaborators sample_world =
     Awaiting ''GET / HTTP/1.1'' ()
       (sample_world
          \<lparr>state := (state sample_world)\<lparr>requestHistory := [(''GET / HTTP/1.1'', True)]\<rparr>,
           elements := (elements sample_world)
             \<lparr>resStatus_textContent := ''Sending...'', resStatus_className := ''status-badge''\<rparr>\<rparr>)"
    by (simp add: handleSendRequest_start_def Let_def addToHistory_def sample_collaborators_def
          sample_world_def)
  have input: "requestHistory (state sample_world) = [] \<and>
      rawRequestInput_innerText (elements sample_world) = ''GET / HTTP/1.1'' \<and>
      useHttpsCheckbox_checked (elements sample_world) = True"
    by (simp add: sample_world_def)
  show ?thesis
    using history_appended_before_call [of sample_collaborators sample_world]
          history_appended_before_call [of sample_collaborators_ok sample_world]
          start input
    by simp
qed

text \<open>
  C7. When the request parses and \<^verbatim>\<open>executeRequest\<close> rejects, the operation ends in the
  \<^verbatim>\<open>catch\<close> block: the status shows "Error" with the class of the 5xx badge, the time
  shows "0ms", the response area is set to be displayed (\<^verbatim>\<open>style.display\<close> is "block")
  and shows the text made of the error's message and stack, and the baseline, the current
  response, the classifier's patterns and the settings (with their two pattern lists) are
  what they were before the call. These five writes are all that the failure does to the
  elements: every other element, the visibility of the response area among them, is as the
  redraw of the history buttons left it; the state changes by the history entry only.
\<close>

theorem network_failure_caught:
  assumes "parseRequest c (rawRequestInput_innerText (elements w))
             (useHttpsCheckbox_checked (elements w)) = Inr (u, opts)"
    and "executeRequest c u opts = Inl err"
  shows "resStatus_textContent (elements (handleSendRequest c w)) = ''Error'' \<and>
         resStatus_className (elements (handleSendRequest c w)) = ''status-badge status-5xx'' \<and>
         resTime_textContent (elements (handleSendRequest c w)) = ''0ms'' \<and>
         rawResponseDisplay_content (elements (handleSendRequest c w)) =
           TextContent (''Error: '' @ message err @ ''\<newline>\<newline>Stack: '' @ stack err) \<and>
         rawResponseDisplay_display (elements (handleSendRequest c w)) = ''block'' \<and>
         regularRequestBaseline (state (handleSendRequest c w)) =
           regularRequestBaseline (state w) \<and>
         currentResponse (state (handleSendRequest c w)) = currentResponse (state w) \<and>
         oosPatterns (handleSendRequest c w) = oosPatterns w \<and>
         settings (handleSendRequest c w) = settings w \<and>
         state (handleSendRequest c w) =
           addToHistory (rawRequestInput_innerText (elements w))
             (useHttpsCheckbox_checked (elements w)) (state w) \<and>
         elements (handleSendRequest c w) =
           (updateHistoryButtons c
              (addToHistory (rawRequestInput_innerText (elements w))
                 (useHttpsCheckbox_checked (elements w)) (state w))
              (elements w))
           \<lparr>resStatus_textContent := ''Error'',
            resStatus_className := ''status-badge status-5xx'',
            resTime_textContent := ''0ms'',
            rawResponseDisplay_content :=
              TextContent (''Error: '' @ message err @ ''\<newline>\<newline>Stack: '' @ stack err),
            rawResponseDisplay_display := ''block''\<rparr>"
proof -
  note run = handleSendRequest_rejected [OF assms]
  have frame: "regularRequestBaseline (state (handleSendRequest c w)) =
           regularRequestBaseline (state w) \<and>
         currentResponse (state (handleSendRequest c w)) = currentResponse (state w)"
    unfolding run by (simp add: addToHistory_def)
  show ?thesis
    using frame unfolding run by simp
qed

theorem network_failure_caught_witness:
  "parseRequest sample_collaborators (rawRequestInput_innerText (elements sample_world))
     (useHttpsCheckbox_checked (elements sample_world)) = Inr (''GET / HTTP/1.1'', ()) \<and>
   executeRequest sample_collaborators ''GET / HTTP/1.1'' () =
     Inl \<lparr>message = ''timeout'', stack = ''executeRequest''\<rparr> \<and>
   rawResponseDisplay_display (elements sample_world) = ''none'' \<and>
   resStatus_textContent (elements (handleSendRequest sample_collaborators sample_world)) = ''Error'' \<and>
   resStatus_className (elements (handleSendRequest sample_collaborators sample_world)) =
     ''status-badge status-5xx'' \<and>
   resTime_textContent (elements (handleSendRequest sample_collaborators sample_world)) = ''0ms'' \<and>
   rawResponseDisplay_content (elements (handleSendRequest sample_collaborators sample_world)) =
     TextContent ''Error: timeout\<newline>\<newline>Stack: executeRequest'' \<and>
   rawResponseDisplay_display (elements (handleSendRequest sample_collaborators sample_world)) =
     ''block'' \<and>
   rawResponseDisplay_visibility (elements (handleSendRequest sample_collaborators sample_world)) =
     ''visible'' \<and>
   regularRequestBaseline (state (handleSendRequest sample_collaborators sample_world)) = None \<and>
   oosPatterns (handleSendRequest sample_collaborators sample_world) = [] \<and>
   settings (handleSendRequest sample_collaborators sample_world) = initial_settings"
proof -
  have p: "parseRequest sample_collaborators (rawRequestInput_innerText (elements sample_world))
     (useHttpsCheckbox_checked (elements sample_world)) = Inr (''GET / HTTP/1.1'', ())"
    by (simp add: sample_collaborators_def sample_world_def)
  have x: "executeRequest sample_collaborators ''GET / HTTP/1.1'' () =
     Inl \<lparr>message = ''timeout'', stack = ''executeRequest''\<rparr>"
    by (simp add: sample_collaborators_def)
  have before: "regularRequestBaseline (state sample_world) = None \<and>
      rawResponseDisplay_display (elements sample_world) = ''none'' \<and>
      oosPatterns sample_world = [] \<and> settings sample_world = initial_settings"
    by (simp add: sample_world_def)
  have redraw: "updateHistoryButtons sample_collaborators = (\<lambda>st el. el)"
    by (simp add: sample_collaborators_def)
  have vis: "rawResponseDisplay_visibility (elements sample_world) = ''visible''"
    by (simp add: sample_world_def)
  show ?thesis
    using network_failure_caught [OF p x] p x before vis
    by (simp add: redraw addToHistory_def)
qed

lemma handleSendRequest_resolved:
  assumes "parseRequest c (rawRequestInput_innerText (elements w))
             (useHttpsCheckbox_checked (elements w)) = Inr (u, opts)"
    and "executeRequest c u opts = Inr r"
  shows "regularRequestBaseline (state (handleSendRequest c w)) =
           (if falsy (regularRequestBaseline (state w)) then Some (rawResponseOf (jsonPretty c) r)
            else regularRequestBaseline (state w)) \<and>
         currentResponse (state (handleSendRequest c w)) = Some (rawResponseOf (jsonPretty c) r)"
proof -
  obtain w1 where w1: "handleSendRequest_start c w = Awaiting u opts w1"
    and same: "regularRequestBaseline (state w1) = regularRequestBaseline (state w)"
    using start_awaiting [OF assms(1)] by blast
  have run: "handleSendRequest c w = responseReceived c r w1"
    using w1 assms(2) by (simp add: handleSendRequest_def handleSendRequest_resume_def)
  show ?thesis
    unfolding run using same by (simp add: responseReceived_baseline responseReceived_current)
qed

text \<open>
  C2. The baseline has two states, empty (\<^verbatim>\<open>null\<close> or the empty text) and set. A
  response received while it is empty becomes the baseline as it is, and the baseline is
  set from then on; a response received while it is set leaves it unchanged; either way
  the response becomes the current response. So after any number of responses received
  from the empty state, the baseline is the first of them and the current response the
  last. The same holds for a whole call of the send-request operation whose request
  parses and whose network call resolves.
\<close>

theorem baseline_protocol:
  "(falsy (regularRequestBaseline (state w)) \<longrightarrow>
      regularRequestBaseline (state (handleSendRequest_resume c (Inr r) w)) =
        Some (rawResponseOf (jsonPretty c) r)) \<and>
   (\<not> falsy (regularRequestBaseline (state w)) \<longrightarrow>
      regularRequestBaseline (state (handleSendRequest_resume c (Inr r) w)) =
        regularRequestBaseline (state w)) \<and>
   currentResponse (state (handleSendRequest_resume c (Inr r) w)) =
     Some (rawResponseOf (jsonPretty c) r) \<and>
   \<not> falsy (regularRequestBaseline (state (handleSendRequest_resume c (Inr r) w))) \<and>
   (falsy (regularRequestBaseline (state w)) \<longrightarrow>
      regularRequestBaseline (state (receiveAll c (r # rs) w)) =
        Some (rawResponseOf (jsonPretty c) r) \<and>
      currentResponse (state (receiveAll c (r # rs) w)) =
        Some (rawResponseOf (jsonPretty c) (last (r # rs)))) \<and>
   (parseRequest c (rawRequestInput_innerText (elements w))
      (useHttpsCheckbox_checked (elements w)) = Inr (u, opts) \<and>
    executeRequest c u opts = Inr r \<longrightarrow>
      regularRequestBaseline (state (handleSendRequest c w)) =
        (if falsy (regularRequestBaseline (state w)) then Some (rawResponseOf (jsonPretty c) r)
         else regularRequestBaseline (state w)) \<and>
      currentResponse (state (handleSendRequest c w)) = Some (rawResponseOf (jsonPretty c) r))"
proof -
  let ?w1 = "handleSendRequest_resume c (Inr r) w"
  let ?raw = "rawResponseOf (jsonPretty c) r"
  have step: "regularRequestBaseline (state ?w1) =
      (if falsy (regularRequestBaseline (state w)) then Some ?raw
       else regularRequestBaseline (state w))"
    by (simp add: handleSendRequest_resume_def responseReceived_baseline)
  have cur: "currentResponse (state ?w1) = Some ?raw"
    by (simp add: handleSendRequest_resume_def responseReceived_current)
  have is_set: "\<not> falsy (regularRequestBaseline (state ?w1))"
    using step falsy_rawResponseOf [of "jsonPretty c" r] by (simp split: if_splits)
  have many: "regularRequestBaseline (state (receiveAll c (r # rs) w)) = Some ?raw"
    if "falsy (regularRequestBaseline (state w))"
  proof -
    have "regularRequestBaseline (state (receiveAll c rs ?w1)) = regularRequestBaseline (state ?w1)"
      using is_set by (rule receiveAll_set)
    then show ?thesis using step that by simp
  qed
  have whole: "regularRequestBaseline (state (handleSendRequest c w)) =
        (if falsy (regularRequestBaseline (state w)) then Some ?raw
         else regularRequestBaseline (state w)) \<and>
      currentResponse (state (handleSendRequest c w)) = Some ?raw"
    if "parseRequest c (rawRequestInput_innerText (elements w))
      (useHttpsCheckbox_checked (elements w)) = Inr (u, opts) \<and> executeRequest c u opts = Inr r"
  proof -
    from that have parsed: "parseRequest c (rawRequestInput_innerText (elements w))
        (useHttpsCheckbox_checked (elements w)) = Inr (u, opts)"
      and resolved: "executeRequest c u opts = Inr r"
      by simp_all
    show ?thesis by (rule handleSendRequest_resolved [OF parsed resolved])
  qed
  show ?thesis
    using step cur is_set many whole receiveAll_current [of c r rs w] by simp
qed

theorem baseline_protocol_witness:
  "falsy (regularRequestBaseline (state sample_world)) \<and>
   regularRequestBaseline
     (state (handleSendRequest_resume sample_collaborators (Inr sample_result1) sample_world)) =
     Some ''HTTP/1.1 200 OK\<newline>content-type: text/plain\<newline>\<newline>hi'' \<and>
   \<not> falsy (regularRequestBaseline (state sample_world_set)) \<and>
   regularRequestBaseline
     (state (handleSendRequest_resume sample_collaborators (Inr sample_result2) sample_world_set)) =
     Some ''HTTP/1.1 200 OK\<newline>content-type: text/plain\<newline>\<newline>hi'' \<and>
   currentResponse
     (state (handleSendRequest_resume sample_collaborators (Inr sample_result2) sample_world_set)) =
     Some ''HTTP/1.1 404 Not Found\<newline>\<newline>'' \<and>
   regularRequestBaseline
     (state (receiveAll sample_collaborators [sample_result1, sample_result2, sample_result2]
               sample_world)) =
     Some ''HTTP/1.1 200 OK\<newline>content-type: text/plain\<newline>\<newline>hi'' \<and>
   regularRequestBaseline (state (handleSendRequest sample_collaborators_ok sample_world)) =
     Some ''HTTP/1.1 200 OK\<newline>content-type: text/plain\<newline>\<newline>hi''"
proof -
  have e: "falsy (regularRequestBaseline (state sample_world))"
    by (simp add: falsy_def sample_world_def)
  have s: "\<not> falsy (regularRequestBaseline (state sample_world_set))"
    by (simp add: falsy_def sample_world_set_baseline)
  have p: "parseRequest sample_collaborators_ok (rawRequestInput_innerText (elements sample_world))
      (useHttpsCheckbox_checked (elements sample_world)) = Inr (''GET / HTTP/1.1'', ()) \<and>
    executeRequest sample_collaborators_ok ''GET / HTTP/1.1'' () = Inr sample_result1"
    by (simp add: sample_collaborators_ok_def sample_collaborators_def sample_world_def)
  have j: "jsonPretty sample_collaborators_ok = jsonPretty sample_collaborators"
    by (simp add: sample_collaborators_ok_def)
  show ?thesis
    using e s sample_world_set_baseline p
      baseline_protocol [of sample_world sample_collaborators sample_result1
                            "[sample_result2, sample_result2]"]
      baseline_protocol [of sample_world_set sample_collaborators sample_result2 "[]"]
      baseline_protocol [of sample_world sample_collaborators_ok sample_result1 "[]"
                            "''GET / HTTP/1.1''" "()"]
    by (simp add: sample_raw1 sample_raw2 j)
qed

text \<open>
  C3. The claim: a response received while the baseline is set is displayed as the diff
  of the baseline and the response whenever the show-diff checkbox is on. The handler
  does not do this for a response that is the same text as the baseline. In the sample
  world after a first response, with the checkbox on, the same response is received
  again: the baseline is set and is that text, the response becomes the current
  response, the diff is written, and the test that follows
  (\<^verbatim>\<open>state.regularRequestBaseline === rawResponse\<close>, meant for the first response)
  overwrites it, so that the response area shows the plain highlighted response and not
  the diff of the two.
\<close>

theorem identical_response_not_shown_as_diff:
  "regularRequestBaseline (state sample_world_set) =
     Some (rawResponseOf (jsonPretty sample_collaborators) sample_result1) \<and>
   \<not> falsy (regularRequestBaseline (state sample_world_set)) \<and>
   showDiffCheckbox (elements sample_world_set) = Some True \<and>
   currentResponse
     (state (handleSendRequest_resume sample_collaborators (Inr sample_result1) sample_world_set)) =
     Some (rawResponseOf (jsonPretty sample_collaborators) sample_result1) \<and>
   rawResponseDisplay_content
     (elements (handleSendRequest_resume sample_collaborators (Inr sample_result1) sample_world_set)) \<noteq>
     InnerHTML (RenderDiff (rawResponseOf (jsonPretty sample_collaborators) sample_result1)
                  (rawResponseOf (jsonPretty sample_collaborators) sample_result1)) \<and>
   rawResponseDisplay_content
     (elements (handleSendRequest_resume sample_collaborators (Inr sample_result1) sample_world_set)) =
     InnerHTML (HighlightHTTP (rawResponseOf (jsonPretty sample_collaborators) sample_result1))"
proof -
  have b: "regularRequestBaseline (state sample_world_set) =
     Some (rawResponseOf (jsonPretty sample_collaborators) sample_result1)"
    by (simp add: sample_world_set_baseline sample_raw1)
  have ne: "rawResponseOf (jsonPretty sample_collaborators) sample_result1 \<noteq> []"
    by (simp add: sample_raw1)
  have "rawResponseDisplay_content
     (elements (responseReceived sample_collaborators sample_result1 sample_world_set)) =
     InnerHTML (HighlightHTTP (rawResponseOf (jsonPretty sample_collaborators) sample_result1))"
    using responseReceived_content [OF b ne, of sample_collaborators sample_result1] by simp
  then show ?thesis
    using b sample_world_set_checkbox falsy_rawResponseOf [of "jsonPretty sample_collaborators" sample_result1]
    by (simp add: handleSendRequest_resume_def responseReceived_current)
qed

end
